theory Spec2Isabelle
  imports Complex_Main
begin

section \<open>LADSPA plugin frequency response tester\<close>

text \<open>
  A shallow embedding of \<^verbatim>\<open>test-plugin.py\<close> (class \<^verbatim>\<open>PluginTester\<close>).
  Python floats are modelled as real numbers: rounding, overflow, infinities and
  NaN are outside the model. Python's unbounded integers are \<open>int\<close> (or \<open>nat\<close>
  for counts that the code keeps non-negative). Exceptions are values of the type
  \<open>error\<close>.
\<close>

subsection \<open>Errors and the tester object\<close>

text \<open>
  The exceptions the modelled code can raise. \<open>SystemExit\<close> carries the exit status
  (\<^verbatim>\<open>parser.error\<close> exits with status 2, \<^verbatim>\<open>sys.exit(1)\<close> with status 1).
  \<open>NonFiniteFloat\<close> is no exception of Python: it marks the point where \<^verbatim>\<open>float\<close>
  returns an infinity or a NaN, values that the real numbers do not have. The model
  stops there and says nothing about what the program does next.
\<close>

datatype error =
  ZeroDivisionError | ValueError | TypeError | IndexError | AttributeError
  | SystemExit int | NonFiniteFloat

text \<open>
  The attributes of \<^verbatim>\<open>PluginTester\<close>. Attributes that start as \<^verbatim>\<open>None\<close> are options.
  \<^verbatim>\<open>output_file\<close> is first assigned by \<^verbatim>\<open>parse_args\<close>; before that it is
  absent, which the model writes as \<open>None\<close>. \<^verbatim>\<open>param_names\<close> is only printed and is
  left out, as is everything the program prints.
\<close>

record tester =
  f_min :: real
  f_max :: real
  steps_per_oct :: int
  duration :: real
  trim_start :: real
  trim_len :: real
  plugin_path :: "string option"
  plugin_label :: "string option"
  plugin_name :: "string option"
  num_inputs :: nat
  num_outputs :: nat
  parameters :: "string list"
  output_file :: "string option"
  no_plot :: bool
  y_min :: "real option"
  y_max :: "real option"



subsection \<open>Python string operations\<close>
























subsection \<open>RMS to dB conversion\<close>

text \<open>
  \<^verbatim>\<open>
  def rms_to_db(self, rms):
      if rms <= 0:
          return -200  # Very low value for silence
      db = 20 * math.log10(rms) + 3.0103
      return db
  \<close>
\<close>

definition rms_to_db :: "real \<Rightarrow> real" where
  "rms_to_db rms = (if rms \<le> 0 then - 200 else 20 * log 10 rms + 30103 / 10000)"

subsection \<open>Command line and plugin analysis\<close>







subsection \<open>Measuring one frequency\<close>






subsection \<open>The sweep\<close>

text \<open>
  \<^verbatim>\<open>
  results = []
  frequency = self.f_min
  while frequency <= self.f_max:
      rms_values = self.measure_frequency(frequency)
      if rms_values is not None:
          db_values = [self.rms_to_db(rms) for rms in rms_values]
          results.append((frequency, db_values))
      else:
          db_values = [-200] * self.num_outputs
          results.append((frequency, db_values))
      frequency *= 2 ** (1 / self.steps_per_oct)
  return results
  \<close>
  The loop may run forever, so its result is an option. Besides the outcome (the
  exception raised, or the list returned) the model returns \<open>calls\<close>, the frequencies
  at which \<^verbatim>\<open>measure_frequency\<close> was called, in order.
\<close>

type_synonym measurement = "real \<times> real list"

partial_function (option) sweep_loop ::
  "(real \<Rightarrow> error + real list option) \<Rightarrow> tester \<Rightarrow> real \<Rightarrow> measurement list \<Rightarrow> real list
     \<Rightarrow> ((error + measurement list) \<times> real list) option"
where
  "sweep_loop measure_f t frequency results calls =
     (if frequency \<le> f_max t then
        (case measure_f frequency of
           Inl err \<Rightarrow> Some (Inl err, calls @ [frequency])
         | Inr rms_values \<Rightarrow>
             (let db_values = (case rms_values of
                                 Some rs \<Rightarrow> map rms_to_db rs
                               | None \<Rightarrow> replicate (num_outputs t) (- 200))
              in if steps_per_oct t = 0
                 then Some (Inl ZeroDivisionError, calls @ [frequency])
                 else sweep_loop measure_f t
                        (frequency * 2 powr (1 / real_of_int (steps_per_oct t)))
                        (results @ [(frequency, db_values)])
                        (calls @ [frequency])))
      else Some (Inr results, calls))"


subsection \<open>Writing the table\<close>





subsection \<open>Plotting\<close>






subsection \<open>The whole run\<close>

text \<open>
  \<^verbatim>\<open>run\<close> calls \<^verbatim>\<open>parse_args\<close>, \<^verbatim>\<open>analyze_plugin\<close>, \<^verbatim>\<open>run_sweep\<close>, \<^verbatim>\<open>write_results\<close> and
  \<^verbatim>\<open>plot_results\<close> in this order; \<^verbatim>\<open>plot_results\<close> is called whatever \<^verbatim>\<open>no_plot\<close>
  says. The result is how the run ended and what it did on the way: the measurements
  it made, the file it wrote (path and text), the figure it saved (the name given to
  \<^verbatim>\<open>savefig\<close> and the file written). \<open>files_after\<close> is what the files hold after
  these events.
\<close>

datatype event = Measure real | WriteFile string string | SaveFig string string

datatype file_content = Table string | Figure

fun apply_event :: "(string \<Rightarrow> file_content option) \<Rightarrow> event \<Rightarrow> (string \<Rightarrow> file_content option)" where
  "apply_event fs (Measure f) = fs"
| "apply_event fs (WriteFile path txt) = fs(path \<mapsto> Table txt)"
| "apply_event fs (SaveFig name written) = fs(written \<mapsto> Figure)"

definition files_after :: "event list \<Rightarrow> (string \<Rightarrow> file_content option)" where
  "files_after events = foldl apply_event (\<lambda>path. None) events"


subsection \<open>An example configuration\<close>






subsection \<open>The invariant of the sweep loop\<close>


section \<open>Lemmas\<close>

subsection \<open>Facts about the decimal logarithm of two\<close>

lemma pow10_ne_pow2: "0 < p \<Longrightarrow> (10::nat) ^ p \<noteq> 2 ^ q"
proof
  assume p: "0 < p" and e: "(10::nat) ^ p = 2 ^ q"
  have "(5::nat) dvd 10" by simp
  moreover have "(10::nat) dvd 10 ^ p" using p by simp
  ultimately have "(5::nat) dvd 10 ^ p" by (rule dvd_trans)
  then have d: "(5::nat) dvd 2 ^ q" using e by simp
  have "coprime (5::nat) 2" by simp
  then have "coprime (5::nat) (2 ^ q)" by simp
  then have "is_unit (5::nat)" using d by (rule coprime_absorb_left [THEN iffD1, rotated])
  then show False by simp
qed

lemma log10_2_not_ratio: "0 < p \<Longrightarrow> 0 < q \<Longrightarrow> log 10 2 \<noteq> real p / real q"
proof
  assume p: "0 < p" and q: "0 < q" and h: "log 10 2 = real p / real q"
  have "(10::real) powr (log 10 2) = 2" by simp
  then have "(10::real) powr (real p / real q) = 2" using h by simp
  then have "((10::real) powr (real p / real q)) powr real q = 2 powr real q" by simp
  then have "(10::real) powr real p = 2 powr real q" using q by (simp add: powr_powr)
  then have "(10::real) ^ p = 2 ^ q" by (simp add: powr_realpow)
  then have "real (10 ^ p) = real (2 ^ q)" by simp
  then have "(10::nat) ^ p = 2 ^ q" by (rule iffD1 [OF of_nat_eq_iff])
  then show False using pow10_ne_pow2 [OF p] by blast
qed

lemma log10_sqrt2: "log 10 (sqrt 2) = log 10 2 / 2"
  by (simp add: log_def ln_sqrt)

lemma sine_offset_ne: "20 * log 10 (sqrt 2) \<noteq> (30103::real) / 10000"
proof
  assume h: "20 * log 10 (sqrt 2) = (30103::real) / 10000"
  then have "log 10 2 = (30103::real) / 100000" by (simp add: log10_sqrt2)
  moreover have "(30103::real) / 100000 = real 30103 / real 100000" by simp
  ultimately have "log 10 2 = real 30103 / real 100000" by (rule trans)
  moreover have "log 10 2 \<noteq> real 30103 / real 100000"
    by (rule log10_2_not_ratio) simp_all
  ultimately show False by blast
qed

lemma log10_2_gt:
  assumes "(10::real) ^ p < 2 ^ q" and "0 < q"
  shows "real p / real q < log 10 2"
proof -
  have "real p < log 10 (2 ^ q)" using assms(1) by (rule less_log_of_power) simp
  also have "\<dots> = real q * log 10 2" by (rule log_nat_power) simp
  finally show ?thesis using assms(2) by (simp add: field_simps)
qed

lemma log10_2_lt:
  assumes "(2::real) ^ q < 10 ^ p" and "0 < q"
  shows "log 10 2 < real p / real q"
proof -
  have "log 10 ((2::real) ^ q) < log 10 (10 ^ p)"
    using assms(1) by (subst log_less_cancel_iff) simp_all
  moreover have "log 10 ((2::real) ^ q) = real q * log 10 2" by (rule log_nat_power) simp
  moreover have "log 10 ((10::real) ^ p) = real p" by (simp add: log_nat_power)
  ultimately have "real q * log 10 2 < real p" by simp
  then show ?thesis using assms(2) by (simp add: field_simps)
qed

lemma log10_2_lower: "(59::real) / 196 < log 10 2"
  using log10_2_gt [of 59 196] by simp

lemma log10_2_upper: "log 10 2 < (146::real) / 485"
  using log10_2_lt [of 485 146] by simp

lemma sine_offset_close: "\<bar>30103 / 10000 - 20 * log 10 (sqrt 2)\<bar> < (1::real) / 10000"
proof -
  have e: "20 * log 10 (sqrt 2) = 10 * log 10 (2::real)"
    by (simp add: log10_sqrt2)
  have "(30102::real) / 100000 < 59 / 196" by simp
  then have lo: "(30102::real) / 100000 < log 10 2"
    using log10_2_lower by (rule less_trans)
  have "(146::real) / 485 < 30104 / 100000" by simp
  with log10_2_upper have hi: "log 10 2 < (30104::real) / 100000"
    by (rule less_trans)
  from lo hi show ?thesis
    unfolding e abs_less_iff by linarith
qed

lemma rms_to_db_unity_sine: "rms_to_db (1 / sqrt 2) = 30103 / 10000 - 20 * log 10 (sqrt 2)"
proof -
  have "log 10 (1 / sqrt 2) = - log 10 (sqrt 2)"
    by (simp add: log_divide)
  moreover have "\<not> 1 / sqrt 2 \<le> (0::real)" by simp
  ultimately show ?thesis by (simp add: rms_to_db_def)
qed

subsection \<open>One step of the sweep loop\<close>


lemma sweep_loop_raise:
  "f \<le> f_max t \<Longrightarrow> m f = Inl err \<Longrightarrow>
     sweep_loop m t f results calls = Some (Inl err, calls @ [f])"
  by (subst sweep_loop.simps) simp



subsection \<open>What every returned sweep satisfies\<close>








subsection \<open>The example, evaluated\<close>











subsection \<open>The timing values, the window and the plot filter\<close>












section \<open>Claims\<close>

text \<open>
  C2 (as amended). For every \<open>rms \<le> 0\<close>, \<open>rms_to_db\<close> returns \<open>-200\<close>; for every
  \<open>rms > 0\<close> it returns \<open>20 * log10(rms) + 3.0103\<close>, where the constant \<open>3.0103\<close> is
  the code's rounded value of \<open>20 * log10(sqrt 2)\<close> and differs from it by less than
  \<open>0.0001\<close>. Hence \<open>rms_to_db 0 = -200\<close>, \<open>rms_to_db (1 / sqrt 2)\<close> is within \<open>0.0001\<close>
  of \<open>0\<close>, and the function never decreases on positive arguments. (It need not
  increase: in double precision neighbouring arguments can give the same result.)
\<close>

theorem rms_to_db_conversion:
  "(r0 \<le> 0 \<longrightarrow> rms_to_db r0 = - 200)
   \<and> (0 < r1 \<longrightarrow> rms_to_db r1 = 20 * log 10 r1 + 30103 / 10000)
   \<and> \<bar>30103 / 10000 - 20 * log 10 (sqrt 2)\<bar> < (1::real) / 10000
   \<and> rms_to_db 0 = - 200
   \<and> \<bar>rms_to_db (1 / sqrt 2)\<bar> < 1 / 10000
   \<and> (0 < a \<and> a \<le> b \<longrightarrow> rms_to_db a \<le> rms_to_db b)"
proof -
  have mono: "0 < a \<and> a \<le> b \<longrightarrow> rms_to_db a \<le> rms_to_db b"
    by (simp add: rms_to_db_def)
  have "\<bar>rms_to_db (1 / sqrt 2)\<bar> < 1 / 10000"
    using sine_offset_close by (simp only: rms_to_db_unity_sine)
  with mono sine_offset_close show ?thesis
    by (simp add: rms_to_db_def)
qed

theorem rms_to_db_conversion_witness:
  "(0::real) \<le> 0 \<and> (0::real) < 1 \<and> (1::real) \<le> 10
   \<and> rms_to_db 0 = - 200 \<and> rms_to_db 1 = 30103 / 10000 \<and> rms_to_db 1 \<le> rms_to_db 10"
  using rms_to_db_conversion [of 0 1 1 10] by simp

text \<open>
  C2 as the spec states it fails: at \<open>rms = 1\<close> the code returns \<open>3.0103\<close>, which is
  not \<open>20 * log10(1) + 20 * log10(sqrt 2)\<close>.
\<close>

theorem rms_to_db_exact_offset_counterexample:
  "rms_to_db 1 \<noteq> 20 * log 10 1 + 20 * log 10 (sqrt 2)"
  using sine_offset_ne by (simp add: rms_to_db_def)












end
